theory Spec2Isabelle
  imports Main "HOL-Library.Word"
begin

section \<open>Strings as the C++ code reads them\<close>

text \<open>
  \<open>Common::String\<close> is a counted byte string that is also NUL-terminated. Three
  readings of it occur in the sources: \<open>c_str()\<close> handed to a system call (the bytes
  before the first NUL), \<open>lastChar()\<close> (NUL for the empty string) and a dereferenced
  iterator or array index, which may stand on the terminator.
\<close>

definition c_str :: "string \<Rightarrow> string" where
  "c_str s = takeWhile (\<lambda>c. c \<noteq> CHR 0x00) s"

definition lastChar :: "string \<Rightarrow> char" where
  "lastChar s = (if s = [] then CHR 0x00 else last s)"

definition char_at :: "string \<Rightarrow> nat \<Rightarrow> char" where
  "char_at s i = (if i < length s then s ! i else CHR 0x00)"

text \<open>How a call ends when it does not return: a failed \<open>assert\<close>, or a member call
  through a null pointer.\<close>

datatype abort = AssertionFailed | NullDereference

section \<open>The host system's file interface\<close>

text \<open>
  \<open>stat\<close>, \<open>access\<close> and \<open>mkdir\<close> belong to the host, not to the repository. The
  host's state is a map from path names to the \<open>st_mode\<close> that \<open>stat\<close> reports; names
  are told apart as strings. What a host reports for a directory is the host's own
  matter, so it is a parameter: \<open>mkdir_st_mode\<close> is the \<open>st_mode\<close> of a directory that
  \<open>mkdir\<close> has made, \<open>host_is_dir\<close> tells which modes the host itself takes for
  directories. A POSIX host reports the file-type bits \<open>S_IFDIR\<close> (octal 040000); the
  backend's own test for a directory is \<open>st_mode == 0\<close> (\<open>setFlags\<close>, and the \<open>EEXIST\<close>
  branch of \<open>assureDirectoryExists\<close>).

  \<open>mkdir\<close> makes one directory: it fails with \<open>EEXIST\<close> on a name that is present, and
  with \<open>ENOENT\<close> or \<open>ENOTDIR\<close> when the name's parent is missing or is no directory. A
  name without a separator before its last component lies in the working directory or
  under the root, which are there.
\<close>

datatype errno = EEXIST | ENOENT | ENOTDIR

type_synonym filesystem = "string \<rightharpoonup> nat"

record host =
  mkdir_st_mode :: nat
  host_is_dir :: "nat \<Rightarrow> bool"

definition stat :: "filesystem \<Rightarrow> string \<Rightarrow> nat option" where
  "stat fs p = fs p"

definition access_F_OK :: "filesystem \<Rightarrow> string \<Rightarrow> bool" where
  "access_F_OK fs p = (fs p \<noteq> None)"

definition parent_name :: "string \<Rightarrow> string" where
  "parent_name p = rev (drop 1 (dropWhile (\<lambda>c. c \<noteq> CHR ''/'') (rev p)))"

definition mkdir :: "host \<Rightarrow> filesystem \<Rightarrow> string \<Rightarrow> errno option \<times> filesystem" where
  "mkdir H fs p =
     (if p = [] then (Some ENOENT, fs)
      else if fs p \<noteq> None then (Some EEXIST, fs)
      else if parent_name p = [] then (None, fs(p \<mapsto> mkdir_st_mode H))
      else (case fs (parent_name p) of
              None \<Rightarrow> (Some ENOENT, fs)
            | Some m \<Rightarrow>
                if host_is_dir H m then (None, fs(p \<mapsto> mkdir_st_mode H))
                else (Some ENOTDIR, fs)))"

text \<open>A directory stream: what \<open>opendir\<close> and the \<open>readdir\<close> calls after it deliver
  for a path, or nothing when the directory cannot be opened.\<close>

datatype d_type_t = DT_UNKNOWN | DT_FIFO | DT_CHR | DT_DIR | DT_BLK | DT_REG | DT_LNK | DT_SOCK

record dirent =
  d_name :: string
  d_type :: d_type_t

type_synonym opendir_t = "string \<Rightarrow> dirent list option"

section \<open>What the backend takes from outside its file\<close>

text \<open>
  \<open>Common::normalizePath\<close> and \<open>Common::lastPathComponent\<close> (common/str.cpp) and the
  macro \<open>S_ISDIR\<close> (stat_def.h) are not among the sources: they are parameters. The
  preprocessor picks one of three ways to classify a directory entry; \<open>SKYOS32\<close> also
  gives the constructor its special case for the root. The branches for \<open>__OS2__\<close>,
  \<open>PSP2\<close> and \<open>__ANDROID__\<close> belong to other platforms and are left out.
\<close>

datatype build = SKYOS32 | SYSTEM_NOT_SUPPORTING_D_TYPE | POSIX_D_TYPE

record externals =
  normalizePath :: "string \<Rightarrow> char \<Rightarrow> string"
  lastPathComponent :: "string \<Rightarrow> char \<Rightarrow> string"
  S_ISDIR :: "nat \<Rightarrow> bool"
  target :: build

section \<open>backends/fs/yuza/yuza-fs.cpp\<close>

record YuzaFilesystemNode =
  n_path :: string
  n_displayName :: string
  n_isValid :: bool
  n_isDirectory :: bool

definition exists_node :: "filesystem \<Rightarrow> YuzaFilesystemNode \<Rightarrow> bool" where
  "exists_node fs n = access_F_OK fs (c_str (n_path n))"

definition setFlags :: "filesystem \<Rightarrow> YuzaFilesystemNode \<Rightarrow> YuzaFilesystemNode" where
  "setFlags fs n =
     (case stat fs (c_str (n_path n)) of
        None \<Rightarrow> n\<lparr>n_isValid := False, n_isDirectory := False\<rparr>
      | Some st_mode \<Rightarrow> n\<lparr>n_isValid := True, n_isDirectory := (st_mode = 0)\<rparr>)"

definition YuzaFilesystemNode_new ::
  "externals \<Rightarrow> filesystem \<Rightarrow> string \<Rightarrow> abort + YuzaFilesystemNode" where
  "YuzaFilesystemNode_new X fs p =
     (if \<not> length p > 0 then Inl AssertionFailed
      else if target X = SKYOS32 \<and> p = ''/'' then
        Inr \<lparr>n_path = p, n_displayName = p, n_isValid = False, n_isDirectory = True\<rparr>
      else
        (let path = normalizePath X p (CHR ''/'') in
         Inr (setFlags fs \<lparr>n_path = path,
                            n_displayName = lastPathComponent X path (CHR ''/''),
                            n_isValid = False, n_isDirectory = False\<rparr>)))"

subsection \<open>getChildren\<close>

datatype ListMode = kListFilesOnly | kListDirectoriesOnly | kListAll

text \<open>The clone of the parent with the entry's name and path set (lines 246 to 250).\<close>

definition child_entry :: "YuzaFilesystemNode \<Rightarrow> dirent \<Rightarrow> YuzaFilesystemNode" where
  "child_entry n dp =
     (let displayName = c_str (d_name dp) in
      n\<lparr>n_displayName := displayName,
        n_path := (if lastChar (n_path n) \<noteq> CHR ''/'' then n_path n @ ''/'' else n_path n)
                   @ displayName\<rparr>)"

text \<open>The classification of an entry (lines 252 to 288), one branch per build.\<close>

definition classify ::
  "externals \<Rightarrow> filesystem \<Rightarrow> dirent \<Rightarrow> YuzaFilesystemNode \<Rightarrow> YuzaFilesystemNode" where
  "classify X fs dp entry =
     (case target X of
        SKYOS32 \<Rightarrow> setFlags fs entry
      | SYSTEM_NOT_SUPPORTING_D_TYPE \<Rightarrow> setFlags fs entry
      | POSIX_D_TYPE \<Rightarrow>
          if d_type dp = DT_UNKNOWN then setFlags fs entry
          else entry\<lparr>
            n_isValid := (d_type dp = DT_DIR \<or> d_type dp = DT_REG \<or> d_type dp = DT_LNK),
            n_isDirectory :=
              (if d_type dp = DT_LNK then
                 (case stat fs (c_str (n_path entry)) of
                    Some st_mode \<Rightarrow> S_ISDIR X st_mode
                  | None \<Rightarrow> False)
               else d_type dp = DT_DIR)\<rparr>)"

text \<open>The two name tests of the loop (lines 237 and 241), on the entry's \<open>d_name\<close>.\<close>

definition skip_invisible :: "dirent \<Rightarrow> bool \<Rightarrow> bool" where
  "skip_invisible dp hidden = (char_at (d_name dp) 0 = CHR ''.'' \<and> \<not> hidden)"

definition skip_dot_dirs :: "dirent \<Rightarrow> bool" where
  "skip_dot_dirs dp =
     ((char_at (d_name dp) 0 = CHR ''.'' \<and> char_at (d_name dp) 1 = CHR 0x00)
      \<or> (char_at (d_name dp) 0 = CHR ''.'' \<and> char_at (d_name dp) 1 = CHR ''.''))"

text \<open>The \<open>readdir\<close> loop: every \<open>continue\<close> leaves the list as it is, the last line
  appends the entry.\<close>

fun readdir_loop ::
  "externals \<Rightarrow> filesystem \<Rightarrow> YuzaFilesystemNode \<Rightarrow> ListMode \<Rightarrow> bool \<Rightarrow> dirent list
    \<Rightarrow> YuzaFilesystemNode list \<Rightarrow> YuzaFilesystemNode list" where
  "readdir_loop X fs n mode hidden [] myList = myList"
| "readdir_loop X fs n mode hidden (dp # rest) myList =
     (if skip_invisible dp hidden then readdir_loop X fs n mode hidden rest myList
      else if skip_dot_dirs dp then readdir_loop X fs n mode hidden rest myList
      else
        (let entry = classify X fs dp (child_entry n dp) in
         if \<not> n_isValid entry then readdir_loop X fs n mode hidden rest myList
         else if (mode = kListFilesOnly \<and> n_isDirectory entry)
               \<or> (mode = kListDirectoriesOnly \<and> \<not> n_isDirectory entry)
           then readdir_loop X fs n mode hidden rest myList
         else readdir_loop X fs n mode hidden rest (myList @ [entry])))"

definition getChildren ::
  "externals \<Rightarrow> opendir_t \<Rightarrow> filesystem \<Rightarrow> YuzaFilesystemNode \<Rightarrow> YuzaFilesystemNode list
    \<Rightarrow> ListMode \<Rightarrow> bool \<Rightarrow> abort + (bool \<times> YuzaFilesystemNode list)" where
  "getChildren X opendir fs n myList mode hidden =
     (if \<not> n_isDirectory n then Inl AssertionFailed
      else (case opendir (c_str (n_path n)) of
              None \<Rightarrow> Inr (False, myList)
            | Some entries \<Rightarrow> Inr (True, readdir_loop X fs n mode hidden entries myList)))"

subsection \<open>getParent\<close>

text \<open>The loop \<open>while (end > start && *(end-1) != '/') end--\<close>, on the offset of
  \<open>end\<close> from \<open>start\<close>.\<close>

fun strip_end :: "string \<Rightarrow> nat \<Rightarrow> nat" where
  "strip_end p 0 = 0"
| "strip_end p (Suc e) = (if p ! e \<noteq> CHR ''/'' then strip_end p e else Suc e)"

text \<open>\<open>makeNode\<close> is declared in yuza-fs.h, which is not among the sources: a parameter.\<close>

definition getParent :: "(string \<Rightarrow> 'node) \<Rightarrow> YuzaFilesystemNode \<Rightarrow> 'node option" where
  "getParent makeNode n =
     (if n_path n = ''/'' then None
      else (let e = strip_end (n_path n) (length (n_path n)) in
            if e = 0 then None
            else Some (makeNode (take e (n_path n)))))"

text \<open>The claim's words for the argument of \<open>makeNode\<close>: the path with its final
  component stripped, that is, the path up to and with its last separator.\<close>

definition without_last_component :: "string \<Rightarrow> string" where
  "without_last_component p = rev (dropWhile (\<lambda>c. c \<noteq> CHR ''/'') (rev p))"

subsection \<open>createDirectory\<close>



subsection \<open>Posix::assureDirectoryExists\<close>

text \<open>Lines 398 to 412: one \<open>mkdir\<close>, and what the function makes of its failure.
  \<open>None\<close> is \<open>return false\<close>; otherwise the loop goes on with the new state.\<close>

definition mkdir_or_present :: "host \<Rightarrow> filesystem \<Rightarrow> string \<Rightarrow> filesystem option" where
  "mkdir_or_present H fs q =
     (case mkdir H fs q of
        (None, fs') \<Rightarrow> Some fs'
      | (Some e, fs') \<Rightarrow>
          if e = EEXIST then
            (case stat fs' q of
               None \<Rightarrow> None
             | Some st_mode \<Rightarrow> if st_mode \<noteq> 0 then None else Some fs')
          else None)"

text \<open>
  The \<open>do ... while (cur++ != end)\<close> loop, with \<open>cur\<close> as an offset into \<open>path\<close> and
  \<open>end\<close> as its length. The string is changed in place: a separator becomes NUL for
  the call and \<open>'/'\<close> again after it; at the last character nothing is cut, and that
  character is overwritten with \<open>'/'\<close> after the call. The iterator starts at or before
  \<open>end\<close> and stops there, so the first branch is never taken.
\<close>

function walk_segments ::
  "host \<Rightarrow> filesystem \<Rightarrow> string \<Rightarrow> nat \<Rightarrow> bool \<times> filesystem" where
  "walk_segments H fs path cur =
     (if length path < cur then (False, fs)
      else if cur + 1 \<noteq> length path \<and> char_at path cur \<noteq> CHR ''/'' then
        (if cur \<noteq> length path then walk_segments H fs path (cur + 1) else (True, fs))
      else
        (let path' = (if cur + 1 \<noteq> length path then path[cur := CHR 0x00] else path) in
         case mkdir_or_present H fs (c_str path') of
           None \<Rightarrow> (False, fs)
         | Some fs' \<Rightarrow>
             if cur \<noteq> length path
             then walk_segments H fs' (path'[cur := CHR ''/'']) (cur + 1)
             else (True, fs')))"
  by pat_completeness auto
termination
  by (relation "measure (\<lambda>(H, fs, path, cur). Suc (length path) - cur)") auto

declare walk_segments.simps [simp del]

definition assureDirectoryExists ::
  "host \<Rightarrow> externals \<Rightarrow> filesystem \<Rightarrow> string \<Rightarrow> string option
    \<Rightarrow> bool \<times> filesystem" where
  "assureDirectoryExists H X fs dir prefix =
     (if (case prefix of
            None \<Rightarrow> False
          | Some pf \<Rightarrow>
              (case stat fs (c_str pf) of
                 None \<Rightarrow> True
               | Some st_mode \<Rightarrow> \<not> S_ISDIR X st_mode))
      then (False, fs)
      else
        (let path = normalizePath X
                      (case prefix of Some pf \<Rightarrow> c_str pf @ ''/'' @ dir | None \<Rightarrow> dir)
                      (CHR ''/'');
             cur = (if char_at path 0 = CHR ''/'' then 1 else 0)
         in walk_segments H fs path cur))"

section \<open>common/file.cpp\<close>

text \<open>
  The file is written against interfaces whose implementations lie elsewhere: streams,
  an archive, filesystem nodes and the factory that makes them. Each interface is a
  record of functions over an abstract state, as the C++ code calls them through
  virtual members. \<open>int32\<close>, \<open>uint32\<close> and \<open>int\<close> are 32-bit words; \<open>sint\<close> reads the
  signed ones.
\<close>

type_synonym int32 = "32 word"
type_synonym uint32 = "32 word"
type_synonym byte = "8 word"

record 'rs SeekableReadStream =
  rs_err :: "'rs \<Rightarrow> bool"
  rs_clearErr :: "'rs \<Rightarrow> 'rs"
  rs_eos :: "'rs \<Rightarrow> bool"
  rs_pos :: "'rs \<Rightarrow> int32"
  rs_size :: "'rs \<Rightarrow> int32"
  rs_seek :: "'rs \<Rightarrow> int32 \<Rightarrow> int32 \<Rightarrow> bool \<times> 'rs"
  rs_read :: "'rs \<Rightarrow> uint32 \<Rightarrow> byte list \<times> uint32 \<times> 'rs"

record 'ws WriteStream =
  ws_err :: "'ws \<Rightarrow> bool"
  ws_clearErr :: "'ws \<Rightarrow> 'ws"
  ws_write :: "'ws \<Rightarrow> byte list \<Rightarrow> uint32 \<Rightarrow> uint32 \<times> 'ws"
  ws_flush :: "'ws \<Rightarrow> bool \<times> 'ws"
  ws_pos :: "'ws \<Rightarrow> int32"

record 'rs Archive =
  hasFile :: "string \<Rightarrow> bool"
  createReadStreamForMember :: "string \<Rightarrow> 'rs option"

text \<open>
  \<open>'w\<close> is the state of the file system behind the nodes, \<open>'an\<close> an
  \<open>AbstractFSNode\<close> from the factory, \<open>'n\<close> an \<open>FSNode\<close>.
\<close>

record ('w, 'an, 'n, 'rs, 'ws) filesystem_iface =
  makeFileNodePath :: "'w \<Rightarrow> string \<Rightarrow> 'an"
  an_exists :: "'w \<Rightarrow> 'an \<Rightarrow> bool"
  an_createDirectory :: "'w \<Rightarrow> 'an \<Rightarrow> bool \<times> 'w"
  FSNode_new :: "'w \<Rightarrow> string \<Rightarrow> 'n"
  fsn_exists :: "'w \<Rightarrow> 'n \<Rightarrow> bool"
  fsn_isDirectory :: "'w \<Rightarrow> 'n \<Rightarrow> bool"
  fsn_getPath :: "'n \<Rightarrow> string"
  fsn_getName :: "'n \<Rightarrow> string"
  fsn_createReadStream :: "'w \<Rightarrow> 'n \<Rightarrow> 'rs option"
  fsn_createWriteStream :: "'w \<Rightarrow> 'n \<Rightarrow> 'ws option \<times> 'w"

text \<open>What a call does besides returning: the member names it asks the archive for, and
  the lines it hands to \<open>debug\<close> and \<open>warning\<close>, in order.\<close>

datatype event =
    MemberLookup string
  | HasFileQuery string
  | Debug nat string
  | Warning string

definition quoted :: "string \<Rightarrow> string" where
  "quoted s = CHR 0x27 # c_str s @ [CHR 0x27]"

primrec member_lookups :: "event list \<Rightarrow> string list" where
  "member_lookups [] = []"
| "member_lookups (e # es) =
     (case e of MemberLookup name \<Rightarrow> name # member_lookups es | _ \<Rightarrow> member_lookups es)"

subsection \<open>File\<close>

record 'rs File =
  f_handle :: "'rs option"
  f_name :: string

definition File_new :: "'rs File" where
  "File_new = \<lparr>f_handle = None, f_name = []\<rparr>"

definition File_open_stream ::
  "'rs File \<Rightarrow> 'rs option \<Rightarrow> string \<Rightarrow> abort + (bool \<times> 'rs File \<times> event list)" where
  "File_open_stream f stream name =
     (if f_handle f \<noteq> None then Inl AssertionFailed
      else (case stream of
              Some s \<Rightarrow>
                (let f' = f\<lparr>f_handle := Some s, f_name := name\<rparr>
                 in Inr (f_handle f' \<noteq> None, f', []))
            | None \<Rightarrow>
                Inr (f_handle f \<noteq> None, f,
                     [Debug 2 (''File::open: opening '' @ quoted name @ '' failed'')])))"

text \<open>The tail of \<open>File::open(filename, archive)\<close> and of \<open>File::open(node)\<close>:
  \<open>return open(stream, name)\<close>, after the events \<open>evs\<close>.\<close>

definition then_open_stream ::
  "event list \<Rightarrow> 'rs File \<Rightarrow> 'rs option \<Rightarrow> string \<Rightarrow> abort + (bool \<times> 'rs File \<times> event list)"
  where
  "then_open_stream evs f stream name =
     (case File_open_stream f stream name of
        Inl a \<Rightarrow> Inl a
      | Inr (ok, f', evs') \<Rightarrow> Inr (ok, f', evs @ evs'))"

definition File_open_archive ::
  "'rs Archive \<Rightarrow> 'rs File \<Rightarrow> string \<Rightarrow> abort + (bool \<times> 'rs File \<times> event list)" where
  "File_open_archive archive f filename =
     (if filename = [] then Inl AssertionFailed
      else if f_handle f \<noteq> None then Inl AssertionFailed
      else
        (case createReadStreamForMember archive filename of
           Some s \<Rightarrow>
             then_open_stream
               [MemberLookup filename, Debug 8 (''Opening hashed: '' @ c_str filename)]
               f (Some s) filename
         | None \<Rightarrow>
             (case createReadStreamForMember archive (filename @ ''.'') of
                Some s \<Rightarrow>
                  then_open_stream
                    [MemberLookup filename, MemberLookup (filename @ ''.''),
                     Debug 8 (''Opening hashed: '' @ c_str filename @ ''.'')]
                    f (Some s) filename
              | None \<Rightarrow>
                  then_open_stream
                    [MemberLookup filename, MemberLookup (filename @ ''.'')]
                    f None filename)))"

text \<open>\<open>File::open(filename)\<close> is \<open>open(filename, SearchMan)\<close>, and \<open>File::exists\<close> asks
  \<open>SearchMan\<close> too: the global archive is the argument \<open>SearchMan\<close>.\<close>

definition File_open :: "'rs Archive \<Rightarrow> 'rs File \<Rightarrow> string \<Rightarrow> abort + (bool \<times> 'rs File \<times> event list)"
  where
  "File_open SearchMan f filename = File_open_archive SearchMan f filename"

definition File_open_node ::
  "('w, 'an, 'n, 'rs, 'ws) filesystem_iface \<Rightarrow> 'w \<Rightarrow> 'rs File \<Rightarrow> 'n
    \<Rightarrow> abort + (bool \<times> 'rs File \<times> event list)" where
  "File_open_node I w f node =
     (if f_handle f \<noteq> None then Inl AssertionFailed
      else if \<not> fsn_exists I w node then
        Inr (False, f,
             [Warning (''File::open: '' @ quoted (fsn_getPath I node) @ '' does not exist'')])
      else if fsn_isDirectory I w node then
        Inr (False, f,
             [Warning (''File::open: '' @ quoted (fsn_getPath I node) @ '' is a directory'')])
      else then_open_stream [] f (fsn_createReadStream I w node) (fsn_getPath I node))"

definition File_exists :: "'rs Archive \<Rightarrow> string \<Rightarrow> bool \<times> event list" where
  "File_exists SearchMan filename =
     (if hasFile SearchMan filename then (True, [HasFileQuery filename])
      else if hasFile SearchMan (filename @ ''.'') then
        (True, [HasFileQuery filename, HasFileQuery (filename @ ''.'')])
      else (False, [HasFileQuery filename, HasFileQuery (filename @ ''.'')]))"

text \<open>\<open>close\<close>: the second component is the pointer handed to \<open>delete\<close>.\<close>

definition File_close :: "'rs File \<Rightarrow> 'rs File \<times> 'rs option" where
  "File_close f = (f\<lparr>f_handle := None\<rparr>, f_handle f)"

definition File_isOpen :: "'rs File \<Rightarrow> bool" where
  "File_isOpen f = (f_handle f \<noteq> None)"

definition File_err :: "'rs SeekableReadStream \<Rightarrow> 'rs File \<Rightarrow> abort + bool" where
  "File_err S f =
     (case f_handle f of None \<Rightarrow> Inl AssertionFailed | Some h \<Rightarrow> Inr (rs_err S h))"

definition File_clearErr :: "'rs SeekableReadStream \<Rightarrow> 'rs File \<Rightarrow> abort + 'rs File" where
  "File_clearErr S f =
     (case f_handle f of
        None \<Rightarrow> Inl AssertionFailed
      | Some h \<Rightarrow> Inr (f\<lparr>f_handle := Some (rs_clearErr S h)\<rparr>))"

definition File_eos :: "'rs SeekableReadStream \<Rightarrow> 'rs File \<Rightarrow> abort + bool" where
  "File_eos S f =
     (case f_handle f of None \<Rightarrow> Inl AssertionFailed | Some h \<Rightarrow> Inr (rs_eos S h))"

definition File_pos :: "'rs SeekableReadStream \<Rightarrow> 'rs File \<Rightarrow> abort + int32" where
  "File_pos S f =
     (case f_handle f of None \<Rightarrow> Inl AssertionFailed | Some h \<Rightarrow> Inr (rs_pos S h))"

definition File_size :: "'rs SeekableReadStream \<Rightarrow> 'rs File \<Rightarrow> abort + int32" where
  "File_size S f =
     (case f_handle f of None \<Rightarrow> Inl AssertionFailed | Some h \<Rightarrow> Inr (rs_size S h))"

definition File_seek ::
  "'rs SeekableReadStream \<Rightarrow> 'rs File \<Rightarrow> int32 \<Rightarrow> int32 \<Rightarrow> abort + (bool \<times> 'rs File)" where
  "File_seek S f offs whence =
     (case f_handle f of
        None \<Rightarrow> Inl AssertionFailed
      | Some h \<Rightarrow>
          (case rs_seek S h offs whence of (ok, h') \<Rightarrow> Inr (ok, f\<lparr>f_handle := Some h'\<rparr>)))"

definition File_read ::
  "'rs SeekableReadStream \<Rightarrow> 'rs File \<Rightarrow> uint32 \<Rightarrow> abort + (byte list \<times> uint32 \<times> 'rs File)"
  where
  "File_read S f len =
     (case f_handle f of
        None \<Rightarrow> Inl AssertionFailed
      | Some h \<Rightarrow>
          (case rs_read S h len of
             (ptr, got, h') \<Rightarrow> Inr (ptr, got, f\<lparr>f_handle := Some h'\<rparr>)))"

subsection \<open>DumpFile\<close>

record 'ws DumpFile =
  d_handle :: "'ws option"

definition DumpFile_new :: "'ws DumpFile" where
  "DumpFile_new = \<lparr>d_handle = None\<rparr>"

definition DumpFile_open_node ::
  "('w, 'an, 'n, 'rs, 'ws) filesystem_iface \<Rightarrow> 'w \<Rightarrow> 'ws DumpFile \<Rightarrow> 'n
    \<Rightarrow> abort + (bool \<times> 'ws DumpFile \<times> 'w \<times> event list)" where
  "DumpFile_open_node I w d node =
     (if d_handle d \<noteq> None then Inl AssertionFailed
      else if fsn_isDirectory I w node then
        Inr (False, d, w, [Warning ''DumpFile::open: FSNode is a directory''])
      else
        (case fsn_createWriteStream I w node of
           (h, w') \<Rightarrow>
             (let d' = d\<lparr>d_handle := h\<rparr>
              in Inr (d_handle d' \<noteq> None, d', w',
                      if d_handle d' = None
                      then [Debug 2 (''File '' @ c_str (fsn_getName I node) @ '' not found'')]
                      else []))))"

text \<open>
  The loop of \<open>DumpFile::open\<close> over the positions \<open>i\<close> of \<open>filename\<close>, from \<open>i\<close> on:
  at each separator the prefix before it is made a directory unless it is empty or
  exists. A failed \<open>createDirectory\<close> costs a warning and nothing else.
\<close>

function create_path_from ::
  "('w, 'an, 'n, 'rs, 'ws) filesystem_iface \<Rightarrow> 'w \<Rightarrow> string \<Rightarrow> nat \<Rightarrow> 'w \<times> event list" where
  "create_path_from I w filename i =
     (if i < length filename then
        (if filename ! i = CHR ''/'' \<or> filename ! i = CHR 0x5C then
           (let subpath = take i filename in
            if subpath = [] then create_path_from I w filename (i + 1)
            else
              (let node = makeFileNodePath I w subpath in
               if an_exists I w node then create_path_from I w filename (i + 1)
               else
                 (case an_createDirectory I w node of
                    (made, w') \<Rightarrow>
                      (case create_path_from I w' filename (i + 1) of
                         (w'', evs) \<Rightarrow>
                           (w'',
                            (if \<not> made
                             then [Warning ''DumpFile: unable to create directories from path prefix'']
                             else []) @ evs)))))
         else create_path_from I w filename (i + 1))
      else (w, []))"
  by pat_completeness auto
termination
  by (relation "measure (\<lambda>(I, w, filename, i). length filename - i)") auto

declare create_path_from.simps [simp del]

definition DumpFile_open ::
  "('w, 'an, 'n, 'rs, 'ws) filesystem_iface \<Rightarrow> 'w \<Rightarrow> 'ws DumpFile \<Rightarrow> string \<Rightarrow> bool
    \<Rightarrow> abort + (bool \<times> 'ws DumpFile \<times> 'w \<times> event list)" where
  "DumpFile_open I w d filename createPath =
     (if filename = [] then Inl AssertionFailed
      else if d_handle d \<noteq> None then Inl AssertionFailed
      else
        (case (if createPath then create_path_from I w filename 0 else (w, [])) of
           (w1, evs1) \<Rightarrow>
             (case DumpFile_open_node I w1 d (FSNode_new I w1 filename) of
                Inl a \<Rightarrow> Inl a
              | Inr (ok, d', w2, evs2) \<Rightarrow> Inr (ok, d', w2, evs1 @ evs2))))"

definition DumpFile_close :: "'ws DumpFile \<Rightarrow> 'ws DumpFile \<times> 'ws option" where
  "DumpFile_close d = (d\<lparr>d_handle := None\<rparr>, d_handle d)"

definition DumpFile_isOpen :: "'ws DumpFile \<Rightarrow> bool" where
  "DumpFile_isOpen d = (d_handle d \<noteq> None)"

definition DumpFile_err :: "'ws WriteStream \<Rightarrow> 'ws DumpFile \<Rightarrow> abort + bool" where
  "DumpFile_err S d =
     (case d_handle d of None \<Rightarrow> Inl AssertionFailed | Some h \<Rightarrow> Inr (ws_err S h))"

definition DumpFile_clearErr :: "'ws WriteStream \<Rightarrow> 'ws DumpFile \<Rightarrow> abort + 'ws DumpFile" where
  "DumpFile_clearErr S d =
     (case d_handle d of
        None \<Rightarrow> Inl AssertionFailed
      | Some h \<Rightarrow> Inr (d\<lparr>d_handle := Some (ws_clearErr S h)\<rparr>))"

definition DumpFile_write ::
  "'ws WriteStream \<Rightarrow> 'ws DumpFile \<Rightarrow> byte list \<Rightarrow> uint32 \<Rightarrow> abort + (uint32 \<times> 'ws DumpFile)"
  where
  "DumpFile_write S d ptr len =
     (case d_handle d of
        None \<Rightarrow> Inl AssertionFailed
      | Some h \<Rightarrow>
          (case ws_write S h ptr len of (n, h') \<Rightarrow> Inr (n, d\<lparr>d_handle := Some h'\<rparr>)))"

definition DumpFile_flush ::
  "'ws WriteStream \<Rightarrow> 'ws DumpFile \<Rightarrow> abort + (bool \<times> 'ws DumpFile)" where
  "DumpFile_flush S d =
     (case d_handle d of
        None \<Rightarrow> Inl AssertionFailed
      | Some h \<Rightarrow> (case ws_flush S h of (ok, h') \<Rightarrow> Inr (ok, d\<lparr>d_handle := Some h'\<rparr>)))"

text \<open>\<open>pos\<close> has no \<open>assert\<close>: on a closed handle it calls a member through the null
  pointer.\<close>

definition DumpFile_pos :: "'ws WriteStream \<Rightarrow> 'ws DumpFile \<Rightarrow> abort + int32" where
  "DumpFile_pos S d =
     (case d_handle d of None \<Rightarrow> Inl NullDereference | Some h \<Rightarrow> Inr (ws_pos S h))"

definition DumpFile_seek :: "'ws DumpFile \<Rightarrow> int32 \<Rightarrow> int32 \<Rightarrow> bool" where
  "DumpFile_seek d offset whence = False"

definition DumpFile_size :: "'ws DumpFile \<Rightarrow> int32" where
  "DumpFile_size d = - 1"

section \<open>Sample inputs\<close>

text \<open>
  An environment to evaluate the backend in: the paths used below are in normal form
  already, where normalizing changes nothing; \<open>S_ISDIR\<close> is the usual test of the
  file-type bits.
\<close>

definition sample_externals :: externals where
  "sample_externals =
     \<lparr>normalizePath = (\<lambda>p sep. p),
      lastPathComponent = (\<lambda>p sep. rev (takeWhile (\<lambda>c. c \<noteq> sep) (rev p))),
      S_ISDIR = (\<lambda>st_mode. (st_mode div 4096) mod 16 = 4),
      target = SKYOS32\<rparr>"


definition zero_mode_host :: host where
  "zero_mode_host = \<lparr>mkdir_st_mode = 0, host_is_dir = (\<lambda>st_mode. st_mode = 0)\<rparr>"

definition three_dirs :: filesystem where
  "three_dirs = [''a'' \<mapsto> 0, ''a/b'' \<mapsto> 0, ''a/b/c'' \<mapsto> 0]"






text \<open>A directory \<open>home\<close> with three regular files, two of them with a leading dot.\<close>

definition home_entries :: "dirent list" where
  "home_entries =
     [\<lparr>d_name = ''.'', d_type = DT_DIR\<rparr>,
      \<lparr>d_name = ''..'', d_type = DT_DIR\<rparr>,
      \<lparr>d_name = ''..data'', d_type = DT_REG\<rparr>,
      \<lparr>d_name = ''.profile'', d_type = DT_REG\<rparr>,
      \<lparr>d_name = ''notes'', d_type = DT_REG\<rparr>]"

definition home_opendir :: opendir_t where
  "home_opendir = (\<lambda>p. if p = ''home'' then Some home_entries else None)"

definition home_fs :: filesystem where
  "home_fs =
     [''home'' \<mapsto> 0, ''home/..data'' \<mapsto> 32768, ''home/.profile'' \<mapsto> 32768,
      ''home/notes'' \<mapsto> 32768]"

definition home_node :: YuzaFilesystemNode where
  "home_node =
     \<lparr>n_path = ''home'', n_displayName = ''home'', n_isValid = True, n_isDirectory = True\<rparr>"


text \<open>A node whose flags say that \<open>d\<close> is a directory.\<close>

definition d_node :: YuzaFilesystemNode where
  "d_node = \<lparr>n_path = ''d'', n_displayName = ''d'', n_isValid = True, n_isDirectory = True\<rparr>"

text \<open>An archive whose only member is \<open>GAMEPC.\<close>, the case of the workaround's comment,
  and one whose only member is \<open>.\<close>. Streams are numbers here.\<close>

definition gamepc_archive :: "nat Archive" where
  "gamepc_archive =
     \<lparr>hasFile = (\<lambda>name. name = ''GAMEPC.''),
      createReadStreamForMember = (\<lambda>name. if name = ''GAMEPC.'' then Some 7 else None)\<rparr>"

definition dot_archive :: "nat Archive" where
  "dot_archive =
     \<lparr>hasFile = (\<lambda>name. name = ''.''),
      createReadStreamForMember = (\<lambda>name. if name = ''.'' then Some 7 else None)\<rparr>"

text \<open>
  A backend without directories: a flat store of named blobs. Its state is the list of
  names written so far, a node is its path, no node exists as a directory,
  \<open>createDirectory\<close> always fails, and a write stream (the name it writes to) opens for
  every name.
\<close>

definition flat_store :: "(string list, string, string, string, string) filesystem_iface" where
  "flat_store =
     \<lparr>makeFileNodePath = (\<lambda>w p. p),
      an_exists = (\<lambda>w n. False),
      an_createDirectory = (\<lambda>w n. (False, w)),
      FSNode_new = (\<lambda>w p. p),
      fsn_exists = (\<lambda>w n. n \<in> set w),
      fsn_isDirectory = (\<lambda>w n. False),
      fsn_getPath = (\<lambda>n. n),
      fsn_getName = (\<lambda>n. rev (takeWhile (\<lambda>c. c \<noteq> CHR ''/'') (rev n))),
      fsn_createReadStream = (\<lambda>w n. if n \<in> set w then Some n else None),
      fsn_createWriteStream = (\<lambda>w n. (Some n, n # w))\<rparr>"


section \<open>The walk of assureDirectoryExists\<close>

text \<open>The string a step of the walk hands to \<open>mkdir\<close>, before \<open>c_str\<close> reads it.\<close>

definition cut_at :: "string \<Rightarrow> nat \<Rightarrow> string" where
  "cut_at path cur = (if Suc cur \<noteq> length path then path[cur := CHR 0x00] else path)"

lemma length_cut_at [simp]: "length (cut_at path cur) = length path"
  by (simp add: cut_at_def)

lemma mkdir_cases:
  "mkdir H fs p = (r, fs') \<Longrightarrow>
     (r = None \<and> p \<noteq> [] \<and> fs p = None \<and> fs' = fs(p \<mapsto> mkdir_st_mode H)) \<or>
     (r \<noteq> None \<and> fs' = fs \<and> (r = Some EEXIST \<longleftrightarrow> (p \<noteq> [] \<and> fs p \<noteq> None)))"
  by (auto simp: mkdir_def split: if_splits option.splits)

lemma mkdir_or_present_Some:
  "mkdir_or_present H fs q = Some fs' \<Longrightarrow>
     q \<noteq> [] \<and> ((fs' = fs \<and> fs q = Some 0) \<or> (fs q = None \<and> fs' = fs(q \<mapsto> mkdir_st_mode H)))"
  by (auto simp: mkdir_or_present_def stat_def dest!: mkdir_cases
      split: prod.splits option.splits if_splits)

lemma mkdir_or_present_again:
  "g q = Some 0 \<Longrightarrow> q \<noteq> [] \<Longrightarrow> mkdir_or_present H g q = Some g"
  by (auto simp: mkdir_or_present_def mkdir_def stat_def)

lemma mkdir_or_present_le: "mkdir_or_present H fs q = Some fs' \<Longrightarrow> fs \<subseteq>\<^sub>m fs'"
  by (auto dest!: mkdir_or_present_Some simp: map_le_def)

text \<open>Where the host reports another mode than 0 for a directory, the step refuses the
  directory that \<open>mkdir\<close> has just made.\<close>

lemma mkdir_or_present_refuses_made_directory:
  "mkdir H fs q = (None, fs') \<Longrightarrow> mkdir_st_mode H \<noteq> 0 \<Longrightarrow> mkdir_or_present H fs' q = None"
  by (auto simp: mkdir_or_present_def mkdir_def stat_def split: if_splits option.splits)

lemma walk_segments_end: "walk_segments H fs path (length path) = (True, fs)"
  by (subst walk_segments.simps) (simp add: char_at_def)

lemma walk_segments_skip:
  "cur < length path \<Longrightarrow> Suc cur \<noteq> length path \<Longrightarrow> char_at path cur \<noteq> CHR ''/'' \<Longrightarrow>
     walk_segments H fs path cur = walk_segments H fs path (Suc cur)"
  by (subst walk_segments.simps) simp

lemma walk_segments_make:
  "cur < length path \<Longrightarrow> Suc cur = length path \<or> char_at path cur = CHR ''/'' \<Longrightarrow>
     walk_segments H fs path cur =
       (case mkdir_or_present H fs (c_str (cut_at path cur)) of
          None \<Rightarrow> (False, fs)
        | Some fs' \<Rightarrow> walk_segments H fs' ((cut_at path cur)[cur := CHR ''/'']) (Suc cur))"
  by (subst walk_segments.simps) (auto simp: cut_at_def Let_def split: option.splits)

text \<open>The walk only adds names: what was present stays, with its mode.\<close>

lemma walk_segments_le:
  "cur \<le> length path \<Longrightarrow> walk_segments H fs path cur = (r, fs') \<Longrightarrow> fs \<subseteq>\<^sub>m fs'"
proof (induction "length path - cur" arbitrary: fs path cur)
  case 0
  then have "cur = length path" by simp
  with "0.prems" show ?case by (simp add: walk_segments_end)
next
  case (Suc k)
  then have lt: "cur < length path" by simp
  show ?case
  proof (cases "Suc cur = length path \<or> char_at path cur = CHR ''/''")
    case False
    with lt Suc.prems have "walk_segments H fs path (Suc cur) = (r, fs')"
      by (simp add: walk_segments_skip)
    with Suc.hyps(1) [of path "Suc cur" fs] Suc.hyps(2) lt show ?thesis by simp
  next
    case True
    note step = walk_segments_make [OF lt True, of H fs]
    show ?thesis
    proof (cases "mkdir_or_present H fs (c_str (cut_at path cur))")
      case None
      with step Suc.prems show ?thesis by simp
    next
      case (Some fs1)
      with step Suc.prems
      have rest: "walk_segments H fs1 ((cut_at path cur)[cur := CHR ''/'']) (Suc cur) = (r, fs')"
        by simp
      have "fs1 \<subseteq>\<^sub>m fs'"
        using Suc.hyps(1) [of "(cut_at path cur)[cur := CHR ''/'']" "Suc cur" fs1]
          Suc.hyps(2) lt rest
        by simp
      moreover have "fs \<subseteq>\<^sub>m fs1" using Some by (rule mkdir_or_present_le)
      ultimately show ?thesis by (rule map_le_trans [rotated])
    qed
  qed
qed

text \<open>On a host that reports the mode 0 for a directory, a walk that succeeded succeeds
  again, and changes nothing, in every state that holds what it left behind.\<close>

lemma walk_segments_again:
  "mkdir_st_mode H = 0 \<Longrightarrow> cur \<le> length path \<Longrightarrow>
   walk_segments H fs path cur = (True, fs') \<Longrightarrow> fs' \<subseteq>\<^sub>m g \<Longrightarrow>
     walk_segments H g path cur = (True, g)"
proof (induction "length path - cur" arbitrary: fs path cur)
  case 0
  then have "cur = length path" by simp
  with "0.prems" show ?case by (simp add: walk_segments_end)
next
  case (Suc k)
  then have lt: "cur < length path" by simp
  note zero = Suc.prems(1)
  show ?case
  proof (cases "Suc cur = length path \<or> char_at path cur = CHR ''/''")
    case False
    with lt Suc.prems have "walk_segments H fs path (Suc cur) = (True, fs')"
      by (simp add: walk_segments_skip)
    with Suc.hyps(1) [of path "Suc cur" fs] Suc.hyps(2) Suc.prems(4) zero lt
    have "walk_segments H g path (Suc cur) = (True, g)" by simp
    with lt False show ?thesis by (simp add: walk_segments_skip)
  next
    case True
    note step = walk_segments_make [OF lt True, of H]
    let ?q = "c_str (cut_at path cur)"
    let ?p = "(cut_at path cur)[cur := CHR ''/'']"
    show ?thesis
    proof (cases "mkdir_or_present H fs ?q")
      case None
      with step [of fs] Suc.prems show ?thesis by simp
    next
      case (Some fs1)
      with step [of fs] Suc.prems
      have rest: "walk_segments H fs1 ?p (Suc cur) = (True, fs')" by simp
      have le: "fs1 \<subseteq>\<^sub>m fs'"
        using walk_segments_le [OF _ rest] lt by simp
      from Some zero have q: "?q \<noteq> []" "fs1 ?q = Some 0"
        using mkdir_or_present_Some [of H fs ?q fs1] by auto
      from q(2) le Suc.prems(4) have "g ?q = Some 0"
        by (metis domI map_le_def)
      with q(1) have again: "mkdir_or_present H g ?q = Some g"
        by (rule mkdir_or_present_again [rotated])
      have "walk_segments H g ?p (Suc cur) = (True, g)"
        using Suc.hyps(1) [of ?p "Suc cur" fs1] Suc.hyps(2) lt rest Suc.prems(4) zero by simp
      with step [of g] again show ?thesis by simp
    qed
  qed
qed

text \<open>So on such a host a call that returned true returns true again in the state it
  left, and leaves it as it is.\<close>

lemma assureDirectoryExists_again_on_zero_mode_host:
  assumes zero: "mkdir_st_mode H = 0"
    and first: "assureDirectoryExists H X fs dir prefix = (True, fs')"
  shows "assureDirectoryExists H X fs' dir prefix = (True, fs')"
proof -
  define path where
    "path = normalizePath X
              (case prefix of Some pf \<Rightarrow> c_str pf @ ''/'' @ dir | None \<Rightarrow> dir) (CHR ''/'')"
  define cur :: nat where "cur = (if char_at path 0 = CHR ''/'' then 1 else 0)"
  have cur: "cur \<le> length path"
    by (cases path) (auto simp: cur_def char_at_def split: if_splits)
  have pre: "\<not> (case prefix of
                  None \<Rightarrow> False
                | Some pf \<Rightarrow>
                    (case stat fs (c_str pf) of
                       None \<Rightarrow> True
                     | Some st_mode \<Rightarrow> \<not> S_ISDIR X st_mode))"
    using first by (auto simp: assureDirectoryExists_def split: if_splits)
  with first have w: "walk_segments H fs path cur = (True, fs')"
    by (simp add: assureDirectoryExists_def path_def cur_def Let_def)
  have le: "fs \<subseteq>\<^sub>m fs'" using walk_segments_le [OF cur w] .
  have pre': "\<not> (case prefix of
                   None \<Rightarrow> False
                 | Some pf \<Rightarrow>
                     (case stat fs' (c_str pf) of
                        None \<Rightarrow> True
                      | Some st_mode \<Rightarrow> \<not> S_ISDIR X st_mode))"
  proof (cases prefix)
    case None
    then show ?thesis by simp
  next
    case (Some pf)
    with pre obtain m where m: "fs (c_str pf) = Some m" "S_ISDIR X m"
      by (auto simp: stat_def split: option.splits)
    with le have "fs' (c_str pf) = Some m" by (metis domI map_le_def)
    with m Some show ?thesis by (simp add: stat_def)
  qed
  have "walk_segments H fs' path cur = (True, fs')"
    using walk_segments_again [OF zero cur w map_le_refl] .
  with pre' show ?thesis
    by (simp add: assureDirectoryExists_def path_def cur_def Let_def)
qed

lemma assureDirectoryExists_zero_mode_host_example:
  "assureDirectoryExists zero_mode_host sample_externals Map.empty ''a/b/c'' None
     = (True, three_dirs)
   \<and> assureDirectoryExists zero_mode_host sample_externals three_dirs ''a/b/c'' None
     = (True, three_dirs)"
proof -
  have first:
    "assureDirectoryExists zero_mode_host sample_externals Map.empty ''a/b/c'' None
       = (True, three_dirs)"
    by (simp add: assureDirectoryExists_def sample_externals_def three_dirs_def char_at_def
        zero_mode_host_def walk_segments.simps mkdir_or_present_def mkdir_def
        parent_name_def c_str_def stat_def)
  have "mkdir_st_mode zero_mode_host = 0" by (simp add: zero_mode_host_def)
  from first assureDirectoryExists_again_on_zero_mode_host [OF this first]
  show ?thesis by simp
qed

section \<open>The loops of getChildren, getParent and DumpFile::open\<close>

lemma classify_displayName [simp]: "n_displayName (classify X fs dp e) = n_displayName e"
  by (simp add: classify_def setFlags_def stat_def split: build.splits option.splits)

lemma char_at_c_str_0: "char_at (c_str s) 0 = CHR ''.'' \<Longrightarrow> char_at s 0 = CHR ''.''"
  by (cases s) (auto simp: char_at_def c_str_def split: if_splits)

text \<open>The loop appends to the list and touches nothing that is in it.\<close>

lemma readdir_loop_appends:
  "\<exists>new. readdir_loop X fs n mode hidden entries myList = myList @ new"
proof (induction entries arbitrary: myList)
  case Nil
  then show ?case by simp
next
  case (Cons dp rest)
  let ?e = "classify X fs dp (child_entry n dp)"
  show ?case
  proof (cases "readdir_loop X fs n mode hidden (dp # rest) myList
                  = readdir_loop X fs n mode hidden rest myList")
    case True
    with Cons.IH [of myList] show ?thesis by simp
  next
    case False
    then have "readdir_loop X fs n mode hidden (dp # rest) myList
                 = readdir_loop X fs n mode hidden rest (myList @ [?e])"
      by (auto simp: Let_def split: if_splits)
    with Cons.IH [of "myList @ [?e]"] show ?thesis by auto
  qed
qed

text \<open>Without \<open>hidden\<close> no appended entry has a display name with a leading dot.\<close>

lemma readdir_loop_not_hidden:
  "\<exists>new. readdir_loop X fs n mode False entries myList = myList @ new
     \<and> list_all (\<lambda>e. char_at (n_displayName e) 0 \<noteq> CHR ''.'') new"
proof (induction entries arbitrary: myList)
  case Nil
  then show ?case by simp
next
  case (Cons dp rest)
  let ?e = "classify X fs dp (child_entry n dp)"
  show ?case
  proof (cases "readdir_loop X fs n mode False (dp # rest) myList
                  = readdir_loop X fs n mode False rest myList")
    case True
    with Cons.IH [of myList] show ?thesis by simp
  next
    case False
    then have step: "readdir_loop X fs n mode False (dp # rest) myList
                       = readdir_loop X fs n mode False rest (myList @ [?e])"
      and vis: "\<not> skip_invisible dp False"
      by (auto simp: Let_def split: if_splits)
    from vis have "char_at (n_displayName ?e) 0 \<noteq> CHR ''.''"
      using char_at_c_str_0 [of "d_name dp"]
      by (auto simp: skip_invisible_def child_entry_def Let_def)
    with step Cons.IH [of "myList @ [?e]"] show ?thesis by auto
  qed
qed

text \<open>With or without \<open>hidden\<close>, an entry whose name begins with two dots is passed
  over, whatever follows the dots.\<close>

lemma two_dots_always_skipped:
  "take 2 (d_name dp) = ''..'' \<Longrightarrow>
     readdir_loop X fs n mode hidden (dp # rest) myList
       = readdir_loop X fs n mode hidden rest myList"
  by (cases "d_name dp"; cases "tl (d_name dp)") (auto simp: skip_dot_dirs_def char_at_def)

text \<open>Where the loop of \<open>getParent\<close> stops.\<close>

lemma strip_end_take:
  "e \<le> length p \<Longrightarrow> take (strip_end p e) p = without_last_component (take e p)"
proof (induction e)
  case 0
  then show ?case by (simp add: without_last_component_def)
next
  case (Suc e)
  then have "take (Suc e) p = take e p @ [p ! e]"
    by (simp add: take_Suc_conv_app_nth)
  with Suc show ?case by (simp add: without_last_component_def)
qed

lemma strip_end_zero:
  "e \<le> length p \<Longrightarrow> strip_end p e = 0 \<longleftrightarrow> CHR ''/'' \<notin> set (take e p)"
proof (induction e)
  case 0
  then show ?case by simp
next
  case (Suc e)
  then have "take (Suc e) p = take e p @ [p ! e]"
    by (simp add: take_Suc_conv_app_nth)
  with Suc show ?case by auto
qed

text \<open>What is stripped is the last component and nothing of the rest: the path is the
  stripped path followed by a name without a separator, and the stripped path, unless
  empty, ends in the separator.\<close>

lemma without_last_component_split:
  "\<exists>name. p = without_last_component p @ name \<and> CHR ''/'' \<notin> set name
     \<and> (without_last_component p = [] \<or> last (without_last_component p) = CHR ''/'')"
proof -
  let ?P = "\<lambda>c. c \<noteq> CHR ''/''"
  let ?name = "rev (takeWhile ?P (rev p))"
  have "rev (takeWhile ?P (rev p) @ dropWhile ?P (rev p)) = p"
    unfolding takeWhile_dropWhile_id by simp
  then have split: "p = without_last_component p @ ?name"
    unfolding rev_append without_last_component_def by simp
  have no: "CHR ''/'' \<notin> set ?name"
    using set_takeWhileD [of "CHR ''/''" ?P "rev p"] by auto
  have "dropWhile ?P (rev p) = [] \<or> hd (dropWhile ?P (rev p)) = CHR ''/''"
    using hd_dropWhile [of ?P "rev p"] by auto
  then have "without_last_component p = [] \<or> last (without_last_component p) = CHR ''/''"
    by (auto simp: without_last_component_def last_rev)
  with split no show ?thesis by blast
qed

text \<open>All that the loop of \<open>DumpFile::open\<close> reports is its warning.\<close>

lemma create_path_from_only_warns:
  "list_all (\<lambda>e. e = Warning ''DumpFile: unable to create directories from path prefix'')
     (snd (create_path_from I w filename i))"
proof (induction I w filename i rule: create_path_from.induct)
  case (1 I w filename i)
  show ?case
    apply (subst create_path_from.simps)
    using 1
    apply (auto simp: Let_def split: prod.splits)
    done
qed

section \<open>Claims\<close>

text \<open>
  C1, as the code has it. For every non-empty file name on a closed handle,
  \<open>File::open(filename, archive)\<close> returns; it asks the archive for the exact name and,
  only if that gave no stream, for the name with one period appended, and for no other
  name; it succeeds exactly if one of the two gave a stream, and holds that stream.
  On an empty name or an open handle it fails its assertion and asks for nothing.
  \<open>File::exists\<close> does the two steps for every name, the empty one too.
\<close>

theorem File_open_two_step_lookup:
  "(filename \<noteq> [] \<and> f_handle f = None \<longrightarrow>
      (\<exists>ok f' evs. File_open_archive A f filename = Inr (ok, f', evs)
         \<and> member_lookups evs =
             (if createReadStreamForMember A filename \<noteq> None then [filename]
              else [filename, filename @ ''.''])
         \<and> (ok \<longleftrightarrow> createReadStreamForMember A filename \<noteq> None
                   \<or> createReadStreamForMember A (filename @ ''.'') \<noteq> None)
         \<and> f_handle f' =
             (case createReadStreamForMember A filename of
                Some s \<Rightarrow> Some s
              | None \<Rightarrow> createReadStreamForMember A (filename @ ''.''))))
   \<and> (filename = [] \<or> f_handle f \<noteq> None \<longrightarrow>
        File_open_archive A f filename = Inl AssertionFailed)
   \<and> File_exists A filename =
       (hasFile A filename \<or> hasFile A (filename @ ''.''),
        if hasFile A filename then [HasFileQuery filename]
        else [HasFileQuery filename, HasFileQuery (filename @ ''.'')])"
  by (auto simp: File_open_archive_def then_open_stream_def File_open_stream_def
      File_exists_def Let_def split: option.splits)

theorem File_open_two_step_lookup_witness:
  "File_open_archive gamepc_archive File_new ''GAMEPC'' =
     Inr (True, \<lparr>f_handle = Some 7, f_name = ''GAMEPC''\<rparr>,
          [MemberLookup ''GAMEPC'', MemberLookup ''GAMEPC.'',
           Debug 8 ''Opening hashed: GAMEPC.''])
   \<and> File_exists gamepc_archive ''GAMEPC'' =
       (True, [HasFileQuery ''GAMEPC'', HasFileQuery ''GAMEPC.''])"
  using File_open_two_step_lookup [of "''GAMEPC''" File_new gamepc_archive]
  by (simp add: File_open_archive_def then_open_stream_def File_open_stream_def File_new_def
      gamepc_archive_def c_str_def)

text \<open>
  C1 as stated fails at the empty file name: in an archive that has the member \<open>.\<close>,
  the lookup of the empty name with a period appended yields a stream, but
  \<open>File::open\<close> on the empty name fails \<open>assert(!filename.empty())\<close> first.
\<close>

theorem File_open_empty_name_counterexample:
  "createReadStreamForMember dot_archive ([] @ ''.'') = Some 7
   \<and> File_open_archive dot_archive File_new [] = Inl AssertionFailed"
  by (simp add: dot_archive_def File_open_archive_def)


text \<open>
  C3. With \<open>hidden\<close> set, \<open>getChildren\<close> is to leave out no name with a leading dot but
  \<open>.\<close> and \<open>..\<close>. In the directory \<open>home\<close> the regular file \<open>..data\<close> is left out all
  the same: the second test of line 241 looks at two characters only, so it holds for
  every name that begins with two dots. \<open>.profile\<close> is listed.
\<close>

theorem getChildren_drops_two_dot_prefix:
  "getChildren sample_externals home_opendir home_fs home_node [] kListAll True =
     Inr (True,
       [\<lparr>n_path = ''home/.profile'', n_displayName = ''.profile'',
          n_isValid = True, n_isDirectory = False\<rparr>,
        \<lparr>n_path = ''home/notes'', n_displayName = ''notes'',
          n_isValid = True, n_isDirectory = False\<rparr>])"
  by (simp add: getChildren_def home_opendir_def home_entries_def home_fs_def home_node_def
      sample_externals_def skip_invisible_def skip_dot_dirs_def char_at_def child_entry_def
      classify_def setFlags_def stat_def c_str_def lastChar_def Let_def)




text \<open>
  C5. \<open>getChildren\<close> returns exactly on a node that is flagged a directory (its
  precondition; otherwise the assertion fails). When it returns, the result is false if
  and only if \<open>opendir\<close> could not open the node's path, and then the list is the one
  that was passed in; when the result is true the list is the old one with entries
  appended.
\<close>

theorem getChildren_false_iff_not_opened:
  "((\<exists>r. getChildren X opendir fs n myList mode hidden = Inr r) \<longleftrightarrow> n_isDirectory n)
   \<and> (n_isDirectory n \<longrightarrow>
        (\<exists>ok out. getChildren X opendir fs n myList mode hidden = Inr (ok, out)
           \<and> (ok = False \<longleftrightarrow> opendir (c_str (n_path n)) = None)
           \<and> (if ok then \<exists>new. out = myList @ new else out = myList)))"
  using readdir_loop_appends [of X fs n mode hidden _ myList]
  by (auto simp: getChildren_def split: option.splits)

theorem getChildren_false_iff_not_opened_witness:
  "n_isDirectory home_node
   \<and> getChildren sample_externals (\<lambda>p. None) home_fs home_node [d_node] kListAll False
       = Inr (False, [d_node])"
  using getChildren_false_iff_not_opened
    [of sample_externals "\<lambda>p. None" home_fs home_node "[d_node]" kListAll False]
  by (auto simp: home_node_def)

text \<open>
  C6. Every accessor of a handle is to fail its assertion on a closed handle. The seven
  accessors of \<open>File\<close> and four of \<open>DumpFile\<close> do. \<open>DumpFile::pos\<close> has no assertion: on
  a closed handle it calls \<open>pos\<close> through the null pointer.
\<close>

theorem DumpFile_pos_closed_handle:
  "File_err R File_new = Inl AssertionFailed
   \<and> File_clearErr R File_new = Inl AssertionFailed
   \<and> File_eos R File_new = Inl AssertionFailed
   \<and> File_pos R File_new = Inl AssertionFailed
   \<and> File_size R File_new = Inl AssertionFailed
   \<and> File_seek R File_new offs whence = Inl AssertionFailed
   \<and> File_read R File_new len = Inl AssertionFailed
   \<and> DumpFile_err S DumpFile_new = Inl AssertionFailed
   \<and> DumpFile_clearErr S DumpFile_new = Inl AssertionFailed
   \<and> DumpFile_write S DumpFile_new ptr len = Inl AssertionFailed
   \<and> DumpFile_flush S DumpFile_new = Inl AssertionFailed
   \<and> DumpFile_pos S DumpFile_new = Inl NullDereference"
  by (simp add: File_new_def DumpFile_new_def File_err_def File_clearErr_def File_eos_def
      File_pos_def File_size_def File_seek_def File_read_def DumpFile_err_def
      DumpFile_clearErr_def DumpFile_write_def DumpFile_flush_def DumpFile_pos_def)

text \<open>
  C7. \<open>DumpFile::open(filename, true)\<close> with a non-empty name on a closed handle always
  returns: whatever the making of the directories did, and whatever warnings it left,
  the call goes on to open the node of \<open>filename\<close> in the state the loop left. Its
  result and its handle are those of that open: true exactly if the node is no
  directory and its write stream opened. The events start with the loop's, which are
  warnings only (\<open>create_path_from_only_warns\<close>).
\<close>

theorem DumpFile_open_createPath_failure_not_fatal:
  assumes "filename \<noteq> []" and "d_handle d = None"
  shows "\<exists>ok d' w2 evs2.
           DumpFile_open I w d filename True =
             Inr (ok, d', w2, snd (create_path_from I w filename 0) @ evs2)
           \<and> (let w1 = fst (create_path_from I w filename 0);
                   node = FSNode_new I w1 filename
               in DumpFile_open_node I w1 d node = Inr (ok, d', w2, evs2)
                  \<and> (ok \<longleftrightarrow> \<not> fsn_isDirectory I w1 node
                            \<and> fst (fsn_createWriteStream I w1 node) \<noteq> None)
                  \<and> (ok \<longleftrightarrow> d_handle d' \<noteq> None))"
  using assms
  by (auto simp: DumpFile_open_def DumpFile_open_node_def Let_def split: prod.splits)

text \<open>In the flat store both directories of the path fail to be made, two warnings are
  left, and the open succeeds.\<close>

theorem DumpFile_open_createPath_failure_not_fatal_witness:
  "DumpFile_open flat_store [] DumpFile_new ''dumps/room1/a.dmp'' True =
     Inr (True, \<lparr>d_handle = Some ''dumps/room1/a.dmp''\<rparr>, [''dumps/room1/a.dmp''],
          [Warning ''DumpFile: unable to create directories from path prefix'',
           Warning ''DumpFile: unable to create directories from path prefix''])"
  using DumpFile_open_createPath_failure_not_fatal
     [of "''dumps/room1/a.dmp''" DumpFile_new flat_store "[]"]
  by (simp add: DumpFile_new_def DumpFile_open_def DumpFile_open_node_def flat_store_def
      create_path_from.simps Let_def)

text \<open>
  C8. \<open>getParent\<close> returns no node exactly when the path is \<open>/\<close> or has no separator.
  For every other path it returns the node that \<open>makeNode\<close> makes of the path with its
  final component stripped; it hands that string over as it is, without normalizing it.
  \<open>without_last_component_split\<close> says what the stripped path is.
\<close>

theorem getParent_strips_last_component:
  "getParent makeNode n =
     (if n_path n = ''/'' \<or> CHR ''/'' \<notin> set (n_path n) then None
      else Some (makeNode (without_last_component (n_path n))))"
  using strip_end_take [of "length (n_path n)" "n_path n"]
    strip_end_zero [of "length (n_path n)" "n_path n"]
  by (auto simp: getParent_def Let_def)

theorem getParent_strips_last_component_witness:
  "getParent (\<lambda>p. p) (d_node\<lparr>n_path := ''/a/b''\<rparr>) = Some ''/a/''
   \<and> getParent (\<lambda>p. p) d_node = (None :: string option)
   \<and> getParent (\<lambda>p. p) (d_node\<lparr>n_path := ''/''\<rparr>) = (None :: string option)"
  using getParent_strips_last_component [of "\<lambda>p. p" "d_node\<lparr>n_path := ''/a/b''\<rparr>"]
    getParent_strips_last_component [of "\<lambda>p. p" d_node]
    getParent_strips_last_component [of "\<lambda>p. p" "d_node\<lparr>n_path := ''/''\<rparr>"]
  by (simp add: without_last_component_def d_node_def)

text \<open>
  C9. A handle holds one stream or none. Every \<open>open\<close> of \<open>File\<close> and of \<open>DumpFile\<close>
  fails its assertion on a handle that holds a stream. \<open>close\<close> hands the stream to
  \<open>delete\<close> and leaves the handle closed, \<open>isOpen\<close> false. On the closed handle \<open>open\<close>
  succeeds again whenever a stream is to be had, and the handle then holds that stream.
\<close>

theorem one_stream_per_handle:
  "(f_handle f \<noteq> None \<longrightarrow>
      File_open_archive A f filename = Inl AssertionFailed
      \<and> File_open SearchMan f filename = Inl AssertionFailed
      \<and> File_open_node I w f node = Inl AssertionFailed
      \<and> File_open_stream f stream name = Inl AssertionFailed)
   \<and> (d_handle d \<noteq> None \<longrightarrow>
      DumpFile_open I w d filename createPath = Inl AssertionFailed
      \<and> DumpFile_open_node I w d node = Inl AssertionFailed)
   \<and> File_close f = (f\<lparr>f_handle := None\<rparr>, f_handle f)
   \<and> File_isOpen (fst (File_close f)) = False
   \<and> DumpFile_close d = (d\<lparr>d_handle := None\<rparr>, d_handle d)
   \<and> DumpFile_isOpen (fst (DumpFile_close d)) = False
   \<and> (\<exists>f'. File_open_stream (fst (File_close f)) (Some s) name = Inr (True, f', [])
           \<and> f_handle f' = Some s \<and> File_isOpen f')
   \<and> (filename \<noteq> [] \<and> createReadStreamForMember A filename = Some s \<longrightarrow>
        (\<exists>f' evs. File_open_archive A (fst (File_close f)) filename = Inr (True, f', evs)
           \<and> f_handle f' = Some s))
   \<and> (\<not> fsn_isDirectory I w node \<and> fsn_createWriteStream I w node = (Some t, w') \<longrightarrow>
        (\<exists>d'. DumpFile_open_node I w (fst (DumpFile_close d)) node = Inr (True, d', w', [])
           \<and> d_handle d' = Some t \<and> DumpFile_isOpen d'))"
  by (auto simp: File_open_archive_def File_open_def File_open_node_def File_open_stream_def
      DumpFile_open_def DumpFile_open_node_def File_close_def DumpFile_close_def
      File_isOpen_def DumpFile_isOpen_def then_open_stream_def Let_def)

theorem one_stream_per_handle_witness:
  "File_open_stream \<lparr>f_handle = Some ''s1'', f_name = ''a''\<rparr> (Some ''s2'') ''b''
     = Inl AssertionFailed
   \<and> File_close \<lparr>f_handle = Some ''s1'', f_name = ''a''\<rparr>
     = (\<lparr>f_handle = None, f_name = ''a''\<rparr>, Some ''s1'')
   \<and> File_open_stream (fst (File_close \<lparr>f_handle = Some ''s1'', f_name = ''a''\<rparr>))
       (Some ''s2'') ''b''
     = Inr (True, \<lparr>f_handle = Some ''s2'', f_name = ''b''\<rparr>, [])
   \<and> DumpFile_open_node flat_store [] \<lparr>d_handle = Some ''a''\<rparr> ''b'' = Inl AssertionFailed
   \<and> DumpFile_open_node flat_store [] (fst (DumpFile_close \<lparr>d_handle = Some ''a''\<rparr>)) ''b''
     = Inr (True, \<lparr>d_handle = Some ''b''\<rparr>, [''b''], [])"
  using one_stream_per_handle
    [where f = "\<lparr>f_handle = Some ''s1'', f_name = ''a''\<rparr>" and stream = "Some ''s2''"
       and s = "''s2''" and name = "''b''" and d = "\<lparr>d_handle = Some ''a''\<rparr>"
       and I = flat_store and w = "[]" and node = "''b''" and t = "''b''" and w' = "[''b'']"]
  by (simp add: File_open_stream_def File_close_def DumpFile_open_node_def DumpFile_close_def
      flat_store_def)

text \<open>
  C10. In every state of a write handle, open or closed, and for every offset and
  \<open>whence\<close>, \<open>DumpFile::seek\<close> returns false and \<open>DumpFile::size\<close> returns -1. The read
  handle does seek and report its size: on an open \<open>File\<close> both calls are answered by
  the stream.
\<close>

theorem DumpFile_seek_size_unsupported:
  "DumpFile_seek d offset whence = False
   \<and> sint (DumpFile_size d) = - 1
   \<and> File_seek S (f\<lparr>f_handle := Some h\<rparr>) offs wh =
       Inr (fst (rs_seek S h offs wh), f\<lparr>f_handle := Some (snd (rs_seek S h offs wh))\<rparr>)
   \<and> File_size S (f\<lparr>f_handle := Some h\<rparr>) = Inr (rs_size S h)"
  by (simp add: DumpFile_seek_def DumpFile_size_def File_seek_def File_size_def
      split: prod.splits)

end
